theory Spec2Isabelle
  imports Complex_Main
begin

section \<open>Data model of TebOptimLocalPlannerServer\<close>

text \<open>
  The header \<^verbatim>\<open>TebOptimLocalPlannerServer.h\<close> declares the class; its C++ \<^verbatim>\<open>double\<close>
  values are idealised as \<^typ>\<open>real\<close>, \<^verbatim>\<open>ros::Time\<close> stamps as seconds in \<^typ>\<open>real\<close>,
  and \<^verbatim>\<open>std::vector\<close> as lists.
\<close>

text \<open>\<^verbatim>\<open>Eigen::Vector2d\<close>: a planar position.\<close>

type_synonym point2d = "real \<times> real"

text \<open>\<^verbatim>\<open>geometry_msgs::PoseStamped\<close>, reduced to its planar content and its stamp.\<close>

record pose =
  px :: real
  py :: real
  pyaw :: real
  pstamp :: real

text \<open>\<^verbatim>\<open>geometry_msgs::Twist\<close>, reduced to its planar components.\<close>

record twist =
  linear_x :: real
  linear_y :: real
  angular_z :: real

text \<open>The obstacle shapes held by \<^verbatim>\<open>ObstContainer\<close>.\<close>

datatype obstacle =
    PointObstacle point2d
  | PolygonObstacle "point2d list"
  | DynamicObstacle "point2d list" point2d

text \<open>
  The member variables of the class that the operations below read or write
  (lines 411--480 of the header). A name cannot end in an underscore here, so each field
  is the member's name without its trailing underscore.
\<close>

record server =
  obstacles :: "obstacle list"
  obstacles_stamps :: "real list"
  via_points :: "point2d list"
  global_plan :: "pose list"
  custom_obstacle_msg :: "obstacle list"
  custom_via_points_active :: bool
  goal_reached :: bool
  no_infeasible_plans :: int
  last_cmd :: twist
  initialized :: bool
  use_proportional_saturation :: bool
  max_time_for_evanescent_obstacles :: real

section \<open>Operations defined inline in the header\<close>

text \<open>
  \<^verbatim>\<open>bool cancel() { return false; };\<close> (line 166). The member function has no access
  to anything but the receiver, which it neither reads nor writes; the model returns the
  result together with the state after the call.
\<close>

definition cancel :: "server \<Rightarrow> bool \<times> server" where
  "cancel s = (False, s)"

text \<open>
  Modelled from the spec: the body of the zero-argument \<^verbatim>\<open>bool isGoalReached();\<close>
  (line 154) is not part of the header. Its documentation says
  ``The actual check is performed in computeVelocityCommands(). Only the status flag is
  checked here.'', so the model reads \<^verbatim>\<open>goal_reached_\<close>.
\<close>

definition isGoalReached :: "server \<Rightarrow> bool" where
  "isGoalReached s = goal_reached s"

text \<open>
  \<^verbatim>\<open>bool isGoalReached(double xy_tolerance, double yaw_tolerance) { return isGoalReached(); };\<close>
  (line 159).
\<close>

definition isGoalReached_tol :: "real \<Rightarrow> real \<Rightarrow> server \<Rightarrow> bool" where
  "isGoalReached_tol xy_tolerance yaw_tolerance s = isGoalReached s"

section \<open>Operations documented in the header\<close>

text \<open>
  The planar content of a \<^verbatim>\<open>geometry_msgs::TransformStamped\<close>: a rotation by \<open>tyaw\<close>
  followed by a translation, and its application to a pose.
\<close>

record transform2d =
  tx :: real
  ty :: real
  tyaw :: real

definition doTransform :: "transform2d \<Rightarrow> pose \<Rightarrow> pose" where
  "doTransform t p =
     p\<lparr>px := tx t + cos (tyaw t) * px p - sin (tyaw t) * py p,
       py := ty t + sin (tyaw t) * px p + cos (tyaw t) * py p,
       pyaw := pyaw p + tyaw t\<rparr>"

text \<open>Euclidean distance between the positions of two poses.\<close>

definition distance_points2d :: "pose \<Rightarrow> pose \<Rightarrow> real" where
  "distance_points2d p q = sqrt ((px p - px q)\<^sup>2 + (py p - py q)\<^sup>2)"

definition within_dist :: "pose \<Rightarrow> real \<Rightarrow> pose \<Rightarrow> bool" where
  "within_dist robot dist_behind_robot p \<longleftrightarrow> distance_points2d robot p \<le> dist_behind_robot"

text \<open>
  Modelled from the spec: the body of \<^verbatim>\<open>pruneGlobalPlan\<close> (declared at line 288) is not
  part of the header. Its documentation (lines 273--287) and the spec (sections 4.1 and 8)
  describe it: the robot pose is transformed into the frame of the global plan, and the call
  returns false when no transform is available; the plan is scanned from the front and the
  poses before the first pose within \<open>dist_behind_robot\<close> of the robot are cut off; when no
  pose lies within the threshold nothing is pruned and the call returns false. The outcome
  of the frame lookup is the argument \<open>tf\<close> (\<open>None\<close>: the lookup failed); the result is
  the returned flag and the plan after the call.
\<close>

definition pruneGlobalPlan ::
  "transform2d option \<Rightarrow> pose \<Rightarrow> pose list \<Rightarrow> real \<Rightarrow> bool \<times> pose list" where
  "pruneGlobalPlan tf global_pose plan dist_behind_robot =
     (case tf of
        None \<Rightarrow> (False, plan)
      | Some global_to_plan_transform \<Rightarrow>
          (let robot = doTransform global_to_plan_transform global_pose;
               kept = dropWhile (\<lambda>p. \<not> within_dist robot dist_behind_robot p) plan
           in if kept = [] then (False, plan) else (True, kept)))"

text \<open>
  Modelled from the spec: the body of \<^verbatim>\<open>convertTransRotVelToSteeringAngle\<close> (declared at
  line 365) is not part of the header. Its documentation (lines 351--364) gives the
  conversion: the turning radius is \<open>R = v / omega\<close>, \<open>min_turning_radius\<close> is a lower
  bound on the turning radius, and the steering angle \<open>phi\<close> of a car with wheelbase \<open>L\<close>
  satisfies \<open>tan phi = L / R\<close>, with \<open>phi\<close> between \<open>- pi / 2\<close> and \<open>pi / 2\<close>. The spec
  (section 8) fixes the angle 0 for \<open>omega = 0\<close>, where the radius is infinite. The
  documentation leaves \<open>v = 0\<close> (radius 0) open; the model returns 0 there too.
\<close>

definition convertTransRotVelToSteeringAngle :: "real \<Rightarrow> real \<Rightarrow> real \<Rightarrow> real \<Rightarrow> real" where
  "convertTransRotVelToSteeringAngle v omega wheelbase min_turning_radius =
     (if omega = 0 \<or> v = 0 then 0
      else
        (let radius = v / omega;
             bounded_radius =
               (if \<bar>radius\<bar> < min_turning_radius then sgn radius * min_turning_radius
                else radius)
         in arctan (wheelbase / bounded_radius)))"

section \<open>Properties of the inline operations\<close>

text \<open>
  C9: the MBF-API \<^verbatim>\<open>cancel()\<close> returns false in every server state, whatever the
  values of the members are, and the state after the call is the state before.
\<close>

theorem cancel_returns_false_and_keeps_state:
  "fst (cancel s) = False \<and> snd (cancel s) = s"
  by (simp add: cancel_def)

text \<open>
  C10: the two-argument \<^verbatim>\<open>isGoalReached\<close> ignores both tolerances: for every pair of
  tolerance values it returns what the zero-argument \<^verbatim>\<open>isGoalReached()\<close> returns, which is
  the stored flag \<^verbatim>\<open>goal_reached_\<close>; two calls with different tolerances agree.
\<close>

theorem isGoalReached_tol_ignores_tolerances:
  "isGoalReached_tol xy_tolerance yaw_tolerance s = isGoalReached s
   \<and> isGoalReached_tol xy_tolerance yaw_tolerance s = isGoalReached_tol xy' yaw' s
   \<and> isGoalReached_tol xy_tolerance yaw_tolerance s = goal_reached s"
  by (simp add: isGoalReached_tol_def isGoalReached_def)

section \<open>Pruning the global plan\<close>

lemma pruneGlobalPlan_no_transform:
  "pruneGlobalPlan None global_pose plan d = (False, plan)"
  by (simp add: pruneGlobalPlan_def)

lemma pruneGlobalPlan_none_within:
  assumes "\<forall>p \<in> set plan. \<not> within_dist (doTransform t global_pose) d p"
  shows "pruneGlobalPlan (Some t) global_pose plan d = (False, plan)"
proof -
  have "dropWhile (\<lambda>p. \<not> within_dist (doTransform t global_pose) d p) plan = []"
    using assms by simp
  then show ?thesis
    unfolding pruneGlobalPlan_def Let_def by (simp del: dropWhile_eq_Nil_conv)
qed

lemma pruneGlobalPlan_some_within:
  assumes "\<exists>p \<in> set plan. within_dist (doTransform t global_pose) d p"
  defines "r \<equiv> pruneGlobalPlan (Some t) global_pose plan d"
  shows "fst r" and "snd r \<noteq> []"
    and "within_dist (doTransform t global_pose) d (hd (snd r))"
    and "\<exists>passed. plan = passed @ snd r
           \<and> (\<forall>p \<in> set passed. \<not> within_dist (doTransform t global_pose) d p)"
proof -
  let ?far = "\<lambda>p. \<not> within_dist (doTransform t global_pose) d p"
  let ?kept = "dropWhile ?far plan"
  have ne: "?kept \<noteq> []"
    using assms(1) by auto
  then have r: "r = (True, ?kept)"
    unfolding r_def pruneGlobalPlan_def Let_def by (simp del: dropWhile_eq_Nil_conv)
  show "fst r" and "snd r \<noteq> []"
    using r ne by simp_all
  show "within_dist (doTransform t global_pose) d (hd (snd r))"
    using hd_dropWhile [OF ne] r by simp
  have "plan = takeWhile ?far plan @ snd r"
    using r by simp
  moreover have "\<forall>p \<in> set (takeWhile ?far plan). ?far p"
    by (auto dest: set_takeWhileD)
  ultimately show "\<exists>passed. plan = passed @ snd r \<and> (\<forall>p \<in> set passed. ?far p)"
    by blast
qed

text \<open>
  C2: for every global plan and robot pose, \<^verbatim>\<open>pruneGlobalPlan\<close> either returns true, and
  then the returned plan is the part of the plan from its first pose within
  \<open>dist_behind_robot\<close> of the robot on (so its first pose is within that distance); or, when
  the transform of the robot pose fails or no pose of the plan is within that distance,
  returns false with the plan as it was.
\<close>

theorem pruneGlobalPlan_prunes_or_keeps:
  fixes tf :: "transform2d option" and global_pose :: pose and plan :: "pose list" and d :: real
  defines "r \<equiv> pruneGlobalPlan tf global_pose plan d"
  shows "(tf = None \<longrightarrow> r = (False, plan))
    \<and> (\<forall>t. tf = Some t \<longrightarrow>
          (\<forall>p \<in> set plan. \<not> within_dist (doTransform t global_pose) d p) \<longrightarrow>
          r = (False, plan))
    \<and> (\<forall>t. tf = Some t \<longrightarrow>
          (\<exists>p \<in> set plan. within_dist (doTransform t global_pose) d p) \<longrightarrow>
          fst r \<and> snd r \<noteq> [] \<and> within_dist (doTransform t global_pose) d (hd (snd r))
          \<and> (\<exists>passed. plan = passed @ snd r
                \<and> (\<forall>p \<in> set passed. \<not> within_dist (doTransform t global_pose) d p)))
    \<and> (fst r \<or> snd r = plan)"
proof (intro conjI allI impI)
  assume "tf = None"
  then show "r = (False, plan)"
    by (simp add: r_def pruneGlobalPlan_no_transform)
next
  fix t
  assume "tf = Some t"
    and "\<forall>p \<in> set plan. \<not> within_dist (doTransform t global_pose) d p"
  then show "r = (False, plan)"
    by (simp add: r_def pruneGlobalPlan_none_within)
next
  fix t
  assume tf: "tf = Some t"
    and ex: "\<exists>p \<in> set plan. within_dist (doTransform t global_pose) d p"
  show "fst r" "snd r \<noteq> []" "within_dist (doTransform t global_pose) d (hd (snd r))"
    "\<exists>passed. plan = passed @ snd r
        \<and> (\<forall>p \<in> set passed. \<not> within_dist (doTransform t global_pose) d p)"
    using pruneGlobalPlan_some_within [OF ex] tf by (simp_all add: r_def)
next
  show "fst r \<or> snd r = plan"
    by (simp add: r_def pruneGlobalPlan_def Let_def split: option.splits)
qed

theorem pruneGlobalPlan_prunes_or_keeps_witness:
  "pruneGlobalPlan None \<lparr>px = 3, py = 0, pyaw = 0, pstamp = 0\<rparr>
      [\<lparr>px = 0, py = 0, pyaw = 0, pstamp = 0\<rparr>, \<lparr>px = 5 / 2, py = 0, pyaw = 0, pstamp = 0\<rparr>] 1
     = (False, [\<lparr>px = 0, py = 0, pyaw = 0, pstamp = 0\<rparr>, \<lparr>px = 5 / 2, py = 0, pyaw = 0, pstamp = 0\<rparr>])
   \<and> pruneGlobalPlan (Some \<lparr>tx = 0, ty = 0, tyaw = 0\<rparr>) \<lparr>px = 3, py = 0, pyaw = 0, pstamp = 0\<rparr>
      [\<lparr>px = 0, py = 0, pyaw = 0, pstamp = 0\<rparr>, \<lparr>px = 1, py = 0, pyaw = 0, pstamp = 0\<rparr>] 1
     = (False, [\<lparr>px = 0, py = 0, pyaw = 0, pstamp = 0\<rparr>, \<lparr>px = 1, py = 0, pyaw = 0, pstamp = 0\<rparr>])
   \<and> pruneGlobalPlan (Some \<lparr>tx = 0, ty = 0, tyaw = 0\<rparr>) \<lparr>px = 3, py = 0, pyaw = 0, pstamp = 0\<rparr>
      [\<lparr>px = 0, py = 0, pyaw = 0, pstamp = 0\<rparr>, \<lparr>px = 5 / 2, py = 0, pyaw = 0, pstamp = 0\<rparr>,
       \<lparr>px = 4, py = 0, pyaw = 0, pstamp = 0\<rparr>] 1
     = (True, [\<lparr>px = 5 / 2, py = 0, pyaw = 0, pstamp = 0\<rparr>, \<lparr>px = 4, py = 0, pyaw = 0, pstamp = 0\<rparr>])
   \<and> within_dist (doTransform \<lparr>tx = 0, ty = 0, tyaw = 0\<rparr> \<lparr>px = 3, py = 0, pyaw = 0, pstamp = 0\<rparr>) 1
        (hd (snd (pruneGlobalPlan (Some \<lparr>tx = 0, ty = 0, tyaw = 0\<rparr>)
          \<lparr>px = 3, py = 0, pyaw = 0, pstamp = 0\<rparr>
          [\<lparr>px = 0, py = 0, pyaw = 0, pstamp = 0\<rparr>, \<lparr>px = 5 / 2, py = 0, pyaw = 0, pstamp = 0\<rparr>,
           \<lparr>px = 4, py = 0, pyaw = 0, pstamp = 0\<rparr>] 1)))"
proof -
  let ?t = "\<lparr>tx = 0, ty = 0, tyaw = 0\<rparr>"
  let ?robot = "\<lparr>px = 3, py = 0, pyaw = 0, pstamp = 0\<rparr>"
  let ?a = "\<lparr>px = 0, py = 0, pyaw = 0, pstamp = 0\<rparr>"
  let ?b = "\<lparr>px = 1, py = 0, pyaw = 0, pstamp = 0\<rparr>"
  let ?c = "\<lparr>px = 5 / 2, py = 0, pyaw = 0, pstamp = 0\<rparr>"
  let ?e = "\<lparr>px = 4, py = 0, pyaw = 0, pstamp = 0\<rparr>"
  have far_a: "\<not> within_dist (doTransform ?t ?robot) 1 ?a"
    and far_b: "\<not> within_dist (doTransform ?t ?robot) 1 ?b"
    and near_c: "within_dist (doTransform ?t ?robot) 1 ?c"
    by (simp_all add: within_dist_def distance_points2d_def doTransform_def power2_eq_square)
  have none: "\<forall>p \<in> set [?a, ?b]. \<not> within_dist (doTransform ?t ?robot) 1 p"
    using far_a far_b by simp
  have some: "\<exists>p \<in> set [?a, ?c, ?e]. within_dist (doTransform ?t ?robot) 1 p"
    using near_c by simp
  have 1: "pruneGlobalPlan None ?robot [?a, ?c] 1 = (False, [?a, ?c])"
    using pruneGlobalPlan_prunes_or_keeps [of None ?robot "[?a, ?c]" 1] by simp
  have 2: "pruneGlobalPlan (Some ?t) ?robot [?a, ?b] 1 = (False, [?a, ?b])"
    using pruneGlobalPlan_prunes_or_keeps [of "Some ?t" ?robot "[?a, ?b]" 1] none by blast
  have 3: "within_dist (doTransform ?t ?robot) 1
             (hd (snd (pruneGlobalPlan (Some ?t) ?robot [?a, ?c, ?e] 1)))"
    using pruneGlobalPlan_prunes_or_keeps [of "Some ?t" ?robot "[?a, ?c, ?e]" 1] some by blast
  have 4: "pruneGlobalPlan (Some ?t) ?robot [?a, ?c, ?e] 1 = (True, [?c, ?e])"
    using far_a near_c by (simp add: pruneGlobalPlan_def)
  show ?thesis
    using 1 2 3 4 by simp
qed

section \<open>Steering angle of a car-like robot\<close>

lemma abs_arctan: "\<bar>arctan x\<bar> = arctan \<bar>x\<bar>" for x :: real
proof (cases "0 \<le> x")
  case True
  then have "0 \<le> arctan x"
    using arctan_monotone' [of 0 x] by simp
  with True show ?thesis by simp
next
  case False
  then have "arctan x \<le> 0"
    using arctan_monotone' [of x 0] by simp
  with False show ?thesis by (simp add: arctan_minus)
qed

lemma abs_bounded_radius:
  fixes radius min_turning_radius :: real
  assumes "radius \<noteq> 0"
  shows "\<bar>if \<bar>radius\<bar> < min_turning_radius then sgn radius * min_turning_radius else radius\<bar>
           = max \<bar>radius\<bar> min_turning_radius"
proof (cases "\<bar>radius\<bar> < min_turning_radius")
  case True
  then have "0 < min_turning_radius"
    by linarith
  moreover have "\<bar>sgn radius\<bar> = 1"
    using assms by (simp add: abs_sgn_eq)
  ultimately have "\<bar>sgn radius * min_turning_radius\<bar> = min_turning_radius"
    by (simp add: abs_mult)
  with True show ?thesis
    by (simp add: max_def)
next
  case False
  then show ?thesis
    by (simp add: max_def)
qed

lemma abs_steering_angle:
  assumes "omega \<noteq> 0" "v \<noteq> 0"
  shows "\<bar>convertTransRotVelToSteeringAngle v omega wheelbase min_turning_radius\<bar>
           = arctan (\<bar>wheelbase\<bar> / max (\<bar>v\<bar> / \<bar>omega\<bar>) min_turning_radius)"
proof -
  have "v / omega \<noteq> 0"
    using assms by simp
  from abs_bounded_radius [OF this, of min_turning_radius] show ?thesis
    using assms by (simp add: convertTransRotVelToSteeringAngle_def Let_def abs_arctan)
qed

lemma steering_angle_in_range:
  "- (pi / 2) \<le> convertTransRotVelToSteeringAngle v omega wheelbase min_turning_radius
   \<and> convertTransRotVelToSteeringAngle v omega wheelbase min_turning_radius \<le> pi / 2"
proof (cases "omega = 0 \<or> v = 0")
  case True
  then show ?thesis
    by (auto simp: convertTransRotVelToSteeringAngle_def)
next
  case False
  then obtain x where "convertTransRotVelToSteeringAngle v omega wheelbase min_turning_radius = arctan x"
    by (simp add: convertTransRotVelToSteeringAngle_def Let_def)
  then show ?thesis
    using arctan_lbound [of x] arctan_ubound [of x] by simp
qed

lemma steering_angle_mono:
  assumes v: "0 < v" and le: "\<bar>omega1\<bar> \<le> \<bar>omega2\<bar>"
  shows "\<bar>convertTransRotVelToSteeringAngle v omega1 wheelbase min_turning_radius\<bar>
           \<le> \<bar>convertTransRotVelToSteeringAngle v omega2 wheelbase min_turning_radius\<bar>"
proof (cases "omega1 = 0")
  case True
  then show ?thesis
    by (simp add: convertTransRotVelToSteeringAngle_def)
next
  case False
  then have o1: "0 < \<bar>omega1\<bar>" and o2: "omega2 \<noteq> 0"
    using le by auto
  let ?r1 = "max (\<bar>v\<bar> / \<bar>omega1\<bar>) min_turning_radius"
  let ?r2 = "max (\<bar>v\<bar> / \<bar>omega2\<bar>) min_turning_radius"
  have "\<bar>v\<bar> / \<bar>omega2\<bar> \<le> \<bar>v\<bar> / \<bar>omega1\<bar>"
    using o1 le by (simp add: frac_le)
  then have r21: "?r2 \<le> ?r1"
    by auto
  have "0 < \<bar>v\<bar> / \<bar>omega2\<bar>"
    using v o2 by simp
  then have r2: "0 < ?r2"
    by (simp add: less_max_iff_disj)
  have "\<bar>wheelbase\<bar> / ?r1 \<le> \<bar>wheelbase\<bar> / ?r2"
    using r2 r21 by (simp add: frac_le)
  then have "arctan (\<bar>wheelbase\<bar> / ?r1) \<le> arctan (\<bar>wheelbase\<bar> / ?r2)"
    by (rule arctan_monotone')
  then show ?thesis
    using abs_steering_angle [of omega1 v] abs_steering_angle [of omega2 v] False o2 v
    by simp
qed

text \<open>
  C5: the steering angle always lies in \<open>[- pi / 2, pi / 2]\<close>; for every \<open>v > 0\<close> the angular
  rate 0 gives the angle 0; and for a fixed \<open>v > 0\<close>, wheelbase and minimum turning radius
  the absolute angle does not decrease when the absolute angular rate grows.
\<close>

theorem convertTransRotVelToSteeringAngle_bounded_monotone:
  "- (pi / 2) \<le> convertTransRotVelToSteeringAngle v omega wheelbase min_turning_radius
   \<and> convertTransRotVelToSteeringAngle v omega wheelbase min_turning_radius \<le> pi / 2
   \<and> (0 < v \<longrightarrow> convertTransRotVelToSteeringAngle v 0 wheelbase min_turning_radius = 0)
   \<and> (0 < v \<longrightarrow> \<bar>omega1\<bar> \<le> \<bar>omega2\<bar> \<longrightarrow>
        \<bar>convertTransRotVelToSteeringAngle v omega1 wheelbase min_turning_radius\<bar>
          \<le> \<bar>convertTransRotVelToSteeringAngle v omega2 wheelbase min_turning_radius\<bar>)"
  using steering_angle_in_range [of v omega wheelbase min_turning_radius]
    steering_angle_mono [of v omega1 omega2 wheelbase min_turning_radius]
  by (simp add: convertTransRotVelToSteeringAngle_def)

theorem convertTransRotVelToSteeringAngle_bounded_monotone_witness:
  "convertTransRotVelToSteeringAngle 1 0 (1 / 2) 0 = 0
   \<and> convertTransRotVelToSteeringAngle 2 (- 2) 3 0 = - arctan 3
   \<and> convertTransRotVelToSteeringAngle 2 4 3 1 = arctan 3
   \<and> - (pi / 2) \<le> convertTransRotVelToSteeringAngle 2 4 3 1
   \<and> convertTransRotVelToSteeringAngle 2 4 3 1 \<le> pi / 2
   \<and> \<bar>convertTransRotVelToSteeringAngle 2 (- 1) 3 0\<bar> \<le> \<bar>convertTransRotVelToSteeringAngle 2 4 3 0\<bar>"
proof -
  have 1: "convertTransRotVelToSteeringAngle 1 0 (1 / 2) 0 = 0"
    using convertTransRotVelToSteeringAngle_bounded_monotone [of 1 0 "1 / 2" 0 0 0] by simp
  have 2: "\<bar>convertTransRotVelToSteeringAngle 2 (- 1) 3 0\<bar> \<le> \<bar>convertTransRotVelToSteeringAngle 2 4 3 0\<bar>"
    using convertTransRotVelToSteeringAngle_bounded_monotone [of 2 4 3 0 "- 1" 4] by simp
  have 3: "- (pi / 2) \<le> convertTransRotVelToSteeringAngle 2 4 3 1
    \<and> convertTransRotVelToSteeringAngle 2 4 3 1 \<le> pi / 2"
    using convertTransRotVelToSteeringAngle_bounded_monotone [of 2 4 3 1 0 0] by simp
  have 4: "convertTransRotVelToSteeringAngle 2 (- 2) 3 0 = - arctan 3"
    by (simp add: convertTransRotVelToSteeringAngle_def arctan_minus)
  have 5: "convertTransRotVelToSteeringAngle 2 4 3 1 = arctan 3"
    by (simp add: convertTransRotVelToSteeringAngle_def)
  show ?thesis
    using 1 2 3 4 5 by simp
qed

end
